theory Spec2Isabelle
  imports Main "HOL-Library.AList"
begin

section \<open>Python values and the errors of the data-access layer\<close>

text \<open>
  The keyword arguments of the DAO are dynamically typed. A value is one of the Python
  values the service layer passes: \<open>None\<close>, a bool, an int, a str, a timezone-aware
  datetime (its instant, as a number) or a list of values.
\<close>

datatype val = VNone | VBool bool | VInt int | VStr string | VDateTime int | VList "val list"

text \<open>Python's truth value (\<open>if not x\<close>): a datetime is always true.\<close>

fun truthy :: "val \<Rightarrow> bool" where
  "truthy VNone = False"
| "truthy (VBool b) = b"
| "truthy (VInt i) = (i \<noteq> 0)"
| "truthy (VStr s) = (s \<noteq> [])"
| "truthy (VDateTime t) = True"
| "truthy (VList xs) = (xs \<noteq> [])"

text \<open>
  A keyword dictionary \<open>**kwargs\<close> keeps insertion order; \<open>kwargs[k] = v\<close> replaces the
  value in place or appends the key (\<open>AList.update\<close>), \<open>kwargs[k]\<close> is \<open>map_of\<close>.
\<close>

type_synonym kwargs = "(string \<times> val) list"

definition kwargs_get :: "kwargs \<Rightarrow> string \<Rightarrow> val" where
  \<comment> \<open>\<open>kwargs.get(k, None)\<close>\<close>
  "kwargs_get kw k = (case map_of kw k of None \<Rightarrow> VNone | Some v \<Rightarrow> v)"

text \<open>
  An attribute of a model class, as \<open>getattr(model_class, name, None)\<close> finds it: a mapped
  column, or one of the methods \<open>GenericBaseModel\<close> defines. (The attributes that the ORM's
  declarative base gives every class are not part of the source and are left out.)
\<close>

datatype attr = ColumnAttr string | MethodAttr string

text \<open>
  The exceptions of \<open>_exceptions.py\<close> with the field, method or id of their message, the
  \<open>ValueError\<close> of the argument checks with its message, and the exceptions of Python and
  of the ORM that the DAO lets through: \<open>SqlDataError\<close> is the ORM's own
  \<open>sqlalchemy.exc.DataError\<close>, \<open>DataError\<close> the DAO's wrapper of it.
\<close>

datatype error =
    InvalidFilterField string
  | InvalidFilterMethod attr string
  | DataError string
  | NotFound val
  | NotNullable string
  | ValueError string
  | AttributeError
  | TypeError
  | UnboundLocalError
  | ArgumentError
  | IntegrityError
  | MultipleResultsFound
  | SqlDataError
  | IndexError

section \<open>Model classes (\<open>models/base_model.py\<close>, \<open>models/oms_models.py\<close>)\<close>

record column =
  col_name :: string
  nullable :: bool
  col_default :: "val option"
  primary_key :: bool
  unique :: bool

text \<open>
  A model class is a subclass of \<open>GenericBaseModel\<close>: its name and the columns it declares
  besides the five audit columns it inherits (it does not declare those again).
\<close>

record model_class =
  cls_name :: string
  own_columns :: "column list"

definition generic_base_columns :: "column list" where
  "generic_base_columns =
    [\<lparr>col_name = ''created_at'', nullable = False, col_default = None, primary_key = False, unique = False\<rparr>,
     \<lparr>col_name = ''created_by'', nullable = False, col_default = None, primary_key = False, unique = False\<rparr>,
     \<lparr>col_name = ''updated_at'', nullable = False, col_default = None, primary_key = False, unique = False\<rparr>,
     \<lparr>col_name = ''updated_by'', nullable = False, col_default = None, primary_key = False, unique = False\<rparr>,
     \<lparr>col_name = ''is_deleted'', nullable = False, col_default = Some (VBool False), primary_key = False, unique = False\<rparr>]"

definition table_columns :: "model_class \<Rightarrow> column list" where
  \<comment> \<open>\<open>model_class.__table__.columns\<close>\<close>
  "table_columns cls = generic_base_columns @ own_columns cls"

definition column_names :: "model_class \<Rightarrow> string list" where
  "column_names cls = map col_name (table_columns cls)"

definition model_methods :: "string list" where
  "model_methods = [''get_id_field'', ''model_to_dict'', ''to_dict'']"

definition class_getattr :: "model_class \<Rightarrow> string \<Rightarrow> attr option" where
  \<comment> \<open>\<open>getattr(model_class, name, None)\<close>\<close>
  "class_getattr cls nm =
    (if nm \<in> set (column_names cls) then Some (ColumnAttr nm)
     else if nm \<in> set model_methods then Some (MethodAttr nm)
     else None)"

text \<open>
  \<open>get_id_field\<close>: the class name with an underscore put before every capital letter but
  the first, in lower case, followed by \<open>_id\<close>. The attribute is looked up without a
  default, so a class without it raises \<open>AttributeError\<close>.
\<close>

definition is_upper :: "char \<Rightarrow> bool" where
  "is_upper c = (65 \<le> (of_char c :: nat) \<and> (of_char c :: nat) \<le> 90)"

definition lower_char :: "char \<Rightarrow> char" where
  "lower_char c = (if is_upper c then char_of ((of_char c :: nat) + 32) else c)"

fun snake_rest :: "string \<Rightarrow> string" where
  "snake_rest [] = []"
| "snake_rest (c # cs) = (if is_upper c then CHR ''_'' # lower_char c # snake_rest cs
                          else lower_char c # snake_rest cs)"

fun snake_case :: "string \<Rightarrow> string" where
  "snake_case [] = []"
| "snake_case (c # cs) = lower_char c # snake_rest cs"

definition id_field_name :: "model_class \<Rightarrow> string" where
  "id_field_name cls = snake_case (cls_name cls) @ ''_id''"

definition get_id_field :: "model_class \<Rightarrow> error + attr" where
  "get_id_field cls =
    (case class_getattr cls (id_field_name cls) of
       None \<Rightarrow> Inl AttributeError
     | Some a \<Rightarrow> Inr a)"

text \<open>The two models of the service and their ordering classes.\<close>

definition Organizations :: model_class where
  "Organizations = \<lparr>cls_name = ''Organizations'', own_columns =
    [\<lparr>col_name = ''organizations_id'', nullable = False, col_default = None, primary_key = True, unique = False\<rparr>,
     \<lparr>col_name = ''organization_name'', nullable = False, col_default = None, primary_key = False, unique = True\<rparr>,
     \<lparr>col_name = ''created_by_password'', nullable = False, col_default = None, primary_key = False, unique = True\<rparr>]\<rparr>"

definition Users :: model_class where
  "Users = \<lparr>cls_name = ''Users'', own_columns =
    [\<lparr>col_name = ''users_id'', nullable = False, col_default = None, primary_key = True, unique = False\<rparr>,
     \<lparr>col_name = ''user_email'', nullable = False, col_default = None, primary_key = False, unique = True\<rparr>,
     \<lparr>col_name = ''user_password'', nullable = False, col_default = None, primary_key = False, unique = False\<rparr>,
     \<lparr>col_name = ''user_type'', nullable = False, col_default = None, primary_key = False, unique = False\<rparr>]\<rparr>"

text \<open>An ordering class maps a symbolic name to a column and a direction (True: ascending).\<close>

type_synonym ordering_class = "(string \<times> (string \<times> bool)) list"

definition OrganizationsOrdering :: ordering_class where
  "OrganizationsOrdering =
    [(''CREATED_AT_ASC'', (''created_at'', True)), (''CREATED_AT_DESC'', (''created_at'', False))]"

definition UsersOrdering :: ordering_class where
  "UsersOrdering =
    [(''CREATED_AT_ASC'', (''created_at'', True)), (''CREATED_AT_DESC'', (''created_at'', False))]"

section \<open>The backing store\<close>

text \<open>
  The database behind the session is an external collaborator. It is modelled as the rows
  of the model's table in insertion order, each row giving every column its value
  (\<open>VNone\<close> is SQL NULL), together with \<open>rejects\<close>: the criteria the database refuses
  with a data error (which comparisons a database refuses is its own affair, so it is a
  parameter of the store). Every DAO method opens a session, works on it and commits at
  most once; a method that raises leaves the store as it found it.
\<close>

type_synonym row = "(string \<times> val) list"

definition row_get :: "row \<Rightarrow> string \<Rightarrow> val" where
  "row_get r c = (case map_of r c of None \<Rightarrow> VNone | Some v \<Rightarrow> v)"

text \<open>A filter criterion of a query, as the ORM expression that \<open>filter\<close> receives.\<close>

datatype crit =
    CFalse
  | CEq string val
  | CIn string "val list"
  | CContains string val
  | CILike string val
  | CGt string val
  | CGe string val
  | CLt string val
  | CLe string val

record store =
  rows :: "row list"
  rejects :: "crit \<Rightarrow> bool"

text \<open>
  What the database makes of a criterion on a row. Comparisons with NULL never hold, except
  that equality with \<open>None\<close> is rendered \<open>IS NULL\<close>. \<open>CContains c v\<close> is
  \<open>c LIKE '%' || v || '%'\<close> and \<open>CILike c v\<close> is \<open>c ILIKE '%v%'\<close>; both are given a meaning
  for string operands, with the wildcards \<open>%\<close> and \<open>_\<close> of LIKE.
\<close>

fun like_match :: "string \<Rightarrow> string \<Rightarrow> bool" where
  "like_match [] [] = True"
| "like_match [] (c # s) = False"
| "like_match (p # ps) [] = (p = CHR ''%'' \<and> like_match ps [])"
| "like_match (p # ps) (c # s) =
     (if p = CHR ''%'' then like_match ps (c # s) \<or> like_match (p # ps) s
      else (p = CHR ''_'' \<or> p = c) \<and> like_match ps s)"

fun str_lt :: "string \<Rightarrow> string \<Rightarrow> bool" where
  "str_lt [] [] = False"
| "str_lt [] (b # bs) = True"
| "str_lt (a # as) [] = False"
| "str_lt (a # as) (b # bs) =
     ((of_char a :: nat) < of_char b \<or> (a = b \<and> str_lt as bs))"

fun val_lt :: "val \<Rightarrow> val \<Rightarrow> bool" where
  "val_lt (VInt a) (VInt b) = (a < b)"
| "val_lt (VDateTime a) (VDateTime b) = (a < b)"
| "val_lt (VStr a) (VStr b) = str_lt a b"
| "val_lt (VBool a) (VBool b) = (\<not> a \<and> b)"
| "val_lt _ _ = False"

fun like_holds :: "bool \<Rightarrow> val \<Rightarrow> val \<Rightarrow> bool" where
  "like_holds ci (VStr s) (VStr t) =
     (if ci then like_match (map lower_char (CHR ''%'' # t @ ''%'')) (map lower_char s)
      else like_match (CHR ''%'' # t @ ''%'') s)"
| "like_holds ci _ _ = False"

fun holds :: "crit \<Rightarrow> row \<Rightarrow> bool" where
  "holds CFalse r = False"
| "holds (CEq c v) r = (row_get r c = v)"
| "holds (CIn c vs) r = (row_get r c \<noteq> VNone \<and> row_get r c \<in> set vs)"
| "holds (CContains c v) r = like_holds False (row_get r c) v"
| "holds (CILike c v) r = like_holds True (row_get r c) v"
| "holds (CGt c v) r = val_lt v (row_get r c)"
| "holds (CGe c v) r = (val_lt v (row_get r c) \<or> (row_get r c = v \<and> v \<noteq> VNone))"
| "holds (CLt c v) r = val_lt (row_get r c) v"
| "holds (CLe c v) r = (val_lt (row_get r c) v \<or> (row_get r c = v \<and> v \<noteq> VNone))"

definition select_rows :: "store \<Rightarrow> crit list \<Rightarrow> row list" where
  \<comment> \<open>the rows of a query whose criteria are \<open>qs\<close>, before ordering and pagination\<close>
  "select_rows st qs = filter (\<lambda>r. list_all (\<lambda>c. holds c r) qs) (rows st)"

text \<open>
  Python's operators on a class attribute. On a mapped column they build a criterion;
  a method compares unequal to every value (and \<open>filter(False)\<close> selects nothing), has no
  \<open>in_\<close>, \<open>contains\<close> or \<open>ilike\<close>, and is not ordered. \<open>in_\<close> takes a list.
\<close>

definition attr_eq :: "attr \<Rightarrow> val \<Rightarrow> crit" where
  "attr_eq a v = (case a of ColumnAttr c \<Rightarrow> CEq c v | MethodAttr m \<Rightarrow> CFalse)"

definition attr_in :: "attr \<Rightarrow> val \<Rightarrow> error + crit" where
  "attr_in a v =
    (case a of
       MethodAttr m \<Rightarrow> Inl AttributeError
     | ColumnAttr c \<Rightarrow> (case v of VList xs \<Rightarrow> Inr (CIn c xs) | _ \<Rightarrow> Inl ArgumentError))"

definition attr_like :: "(string \<Rightarrow> val \<Rightarrow> crit) \<Rightarrow> attr \<Rightarrow> val \<Rightarrow> error + crit" where
  "attr_like mk a v = (case a of MethodAttr m \<Rightarrow> Inl AttributeError | ColumnAttr c \<Rightarrow> Inr (mk c v))"

definition attr_cmp :: "(string \<Rightarrow> val \<Rightarrow> crit) \<Rightarrow> attr \<Rightarrow> val \<Rightarrow> error + crit" where
  "attr_cmp mk a v = (case a of MethodAttr m \<Rightarrow> Inl TypeError | ColumnAttr c \<Rightarrow> Inr (mk c v))"

text \<open>
  The constraints the table declares, checked when a row is written: NOT NULL, and no
  other row with the same value in a primary-key or unique column.
\<close>

definition violates :: "model_class \<Rightarrow> row list \<Rightarrow> row \<Rightarrow> bool" where
  "violates cls others r =
    list_ex (\<lambda>c.
        (\<not> nullable c \<and> row_get r (col_name c) = VNone)
      \<or> ((primary_key c \<or> unique c) \<and> row_get r (col_name c) \<noteq> VNone
          \<and> list_ex (\<lambda>r'. row_get r' (col_name c) = row_get r (col_name c)) others))
      (table_columns cls)"

section \<open>The generic DAO (\<open>dao/base_dao.py\<close>)\<close>

text \<open>
  The DAO keeps its model class, its ordering class and the names of the columns that are
  non-nullable and have no default. The source keeps those names in a set; here they are a
  list in the table's column order, and the order only decides which field a NotNullable
  error names. The constructor's checks of its arguments' types are the types of
  \<open>BaseDao_init\<close>. The store is passed to every method and returned by those that write.
\<close>

record BaseDao =
  dao_model_class :: model_class
  dao_model_ordering_class :: ordering_class
  non_nullable_columns :: "string list"

definition BaseDao_init :: "model_class \<Rightarrow> ordering_class \<Rightarrow> BaseDao" where
  \<comment> \<open>the set comprehension of the constructor\<close>
  "BaseDao_init cls oc =
    \<lparr>dao_model_class = cls, dao_model_ordering_class = oc,
     non_nullable_columns =
       map col_name (filter (\<lambda>c. \<not> nullable c \<and> col_default c = None) (table_columns cls))\<rparr>"

definition verify_null_kwargs :: "BaseDao \<Rightarrow> kwargs \<Rightarrow> error + unit" where
  "verify_null_kwargs dao kw =
    (case find (\<lambda>field. field \<in> set (non_nullable_columns dao) \<and> map_of kw field = Some VNone)
            (map fst kw) of
       Some field \<Rightarrow> Inl (NotNullable field)
     | None \<Rightarrow> Inr ())"

definition verify_all_non_nullable_fields_defined :: "BaseDao \<Rightarrow> kwargs \<Rightarrow> error + unit" where
  "verify_all_non_nullable_fields_defined dao kw =
    (case find (\<lambda>field. map_of kw field = None) (non_nullable_columns dao) of
       Some field \<Rightarrow> Inl (NotNullable field)
     | None \<Rightarrow> Inr ())"

definition id_crit :: "model_class \<Rightarrow> val \<Rightarrow> error + crit" where
  \<comment> \<open>\<open>model_class.get_id_field() == id\<close>\<close>
  "id_crit cls ident = (case get_id_field cls of Inl e \<Rightarrow> Inl e | Inr a \<Rightarrow> Inr (attr_eq a ident))"

definition internal_get :: "BaseDao \<Rightarrow> store \<Rightarrow> val \<Rightarrow> error + row option" where
  \<comment> \<open>\<open>_get\<close>: the query by identifier, read with \<open>one_or_none()\<close>\<close>
  "internal_get dao st ident =
    (case id_crit (dao_model_class dao) ident of
       Inl e \<Rightarrow> Inl e
     | Inr c \<Rightarrow>
        if rejects st c then Inl SqlDataError
        else (case select_rows st [c] of
                [] \<Rightarrow> Inr None
              | [r] \<Rightarrow> Inr (Some r)
              | _ \<Rightarrow> Inl MultipleResultsFound))"

definition BaseDao_get :: "BaseDao \<Rightarrow> store \<Rightarrow> val \<Rightarrow> error + row option" where
  "BaseDao_get dao st ident = internal_get dao st ident"

text \<open>
  The row an instance built from keyword arguments is inserted as: a column takes its
  keyword's value; a column whose keyword is absent or \<open>None\<close> takes its default, or NULL.
  The model's constructor refuses a keyword that is not an attribute of the class.
\<close>

definition instance_row :: "model_class \<Rightarrow> kwargs \<Rightarrow> row" where
  "instance_row cls kw =
    map (\<lambda>c. (col_name c,
               (case kwargs_get kw (col_name c) of
                  VNone \<Rightarrow> (case col_default c of None \<Rightarrow> VNone | Some d \<Rightarrow> d)
                | v \<Rightarrow> v)))
        (table_columns cls)"

definition create_kwargs :: "kwargs \<Rightarrow> kwargs" where
  \<comment> \<open>the two assignments \<open>create\<close> starts with\<close>
  "create_kwargs kwargs0 =
    (let kwargs1 = AList.update ''updated_by'' (kwargs_get kwargs0 ''created_by'') kwargs0
     in AList.update ''updated_at'' (kwargs_get kwargs1 ''created_at'') kwargs1)"

definition BaseDao_create :: "BaseDao \<Rightarrow> store \<Rightarrow> kwargs \<Rightarrow> (error + unit) \<times> store" where
  "BaseDao_create dao st kwargs0 =
    (let kwargs2 = create_kwargs kwargs0
     in case verify_null_kwargs dao kwargs2 of
          Inl e \<Rightarrow> (Inl e, st)
        | Inr _ \<Rightarrow>
          (case verify_all_non_nullable_fields_defined dao kwargs2 of
             Inl e \<Rightarrow> (Inl e, st)
           | Inr _ \<Rightarrow>
              if list_ex (\<lambda>k. class_getattr (dao_model_class dao) k = None) (map fst kwargs2)
              then (Inl TypeError, st)
              else (let inst = instance_row (dao_model_class dao) kwargs2
                    in if violates (dao_model_class dao) (rows st) inst
                       then (Inl IntegrityError, st)
                       else (Inr (), st\<lparr>rows := rows st @ [inst]\<rparr>))))"

text \<open>
  \<open>setattr(instance, field, v)\<close> changes the row where \<open>field\<close> is a column; any other
  name becomes a plain attribute of the Python object and is not persisted. The commit of
  a changed instance rewrites the row the identifier selects.
\<close>

definition setattr :: "model_class \<Rightarrow> row \<Rightarrow> string \<Rightarrow> val \<Rightarrow> row" where
  "setattr cls r field v = (if field \<in> set (column_names cls) then AList.update field v r else r)"

definition commit_instance :: "model_class \<Rightarrow> store \<Rightarrow> val \<Rightarrow> row \<Rightarrow> (error + unit) \<times> store" where
  "commit_instance cls st ident inst =
    (case id_crit cls ident of
       Inl e \<Rightarrow> (Inl e, st)
     | Inr c \<Rightarrow>
        if violates cls (filter (\<lambda>r. \<not> holds c r) (rows st)) inst
        then (Inl IntegrityError, st)
        else (Inr (), st\<lparr>rows := map (\<lambda>r. if holds c r then inst else r) (rows st)\<rparr>))"

definition BaseDao_update :: "BaseDao \<Rightarrow> store \<Rightarrow> int \<Rightarrow> val \<Rightarrow> kwargs \<Rightarrow> (error + unit) \<times> store" where
  \<comment> \<open>\<open>now\<close> is the value of \<open>datetime.now(timezone.utc)\<close> at the call\<close>
  "BaseDao_update dao st now ident kwargs0 =
    (if kwargs0 = [] then (Inr (), st)
     else case internal_get dao st ident of
        Inl e \<Rightarrow> (Inl e, st)
      | Inr None \<Rightarrow> (Inl (NotFound ident), st)
      | Inr (Some inst) \<Rightarrow>
         (case verify_null_kwargs dao kwargs0 of
            Inl e \<Rightarrow> (Inl e, st)
          | Inr _ \<Rightarrow>
             (let inst1 = foldl (\<lambda>r field. setattr (dao_model_class dao) r field (kwargs_get kwargs0 field))
                            inst (map fst kwargs0);
                  inst2 = setattr (dao_model_class dao) inst1 ''updated_at'' (VDateTime now)
              in commit_instance (dao_model_class dao) st ident inst2)))"

definition BaseDao_soft_delete :: "BaseDao \<Rightarrow> store \<Rightarrow> val \<Rightarrow> val \<Rightarrow> val \<Rightarrow> (error + unit) \<times> store" where
  "BaseDao_soft_delete dao st ident updated_by updated_at =
    (if \<not> truthy ident then (Inl (ValueError ''id is undefined''), st)
     else if \<not> truthy updated_by then (Inl (ValueError ''updated_by is undefined''), st)
     else if \<not> truthy updated_at then (Inl (ValueError ''updated_at is undefined''), st)
     else case internal_get dao st ident of
        Inl e \<Rightarrow> (Inl e, st)
      | Inr None \<Rightarrow> (Inl (NotFound ident), st)
      | Inr (Some inst) \<Rightarrow>
         (let inst1 = setattr (dao_model_class dao) inst ''updated_by'' updated_by;
              inst2 = setattr (dao_model_class dao) inst1 ''updated_at'' updated_at;
              inst3 = setattr (dao_model_class dao) inst2 ''is_deleted'' (VBool True)
          in commit_instance (dao_model_class dao) st ident inst3))"


section \<open>The filter parser (\<open>db/query_parser.py\<close>)\<close>

text \<open>\<open>field_string.split('__')\<close>: the separators are found from the left and do not overlap.\<close>

fun split_dunder :: "string \<Rightarrow> string \<Rightarrow> string list" where
  "split_dunder cur [] = [rev cur]"
| "split_dunder cur [c] = [rev (c # cur)]"
| "split_dunder cur (c # d # rest) =
     (if c = CHR ''_'' \<and> d = CHR ''_'' then rev cur # split_dunder [] rest
      else split_dunder (c # cur) (d # rest))"

definition py_split :: "string \<Rightarrow> string list" where
  "py_split s = split_dunder [] s"

record QueryParser =
  qp_model_class :: model_class
  qp_queryset :: "crit list"
  is_method_lookup :: bool
  qp_field :: attr
  qp_value :: val
  qp_method :: "string option"

definition QueryParser_init :: "model_class \<Rightarrow> crit list \<Rightarrow> string \<Rightarrow> val \<Rightarrow> error + QueryParser" where
  "QueryParser_init model queryset field v =
    (case py_split field of
       [] \<Rightarrow> Inl IndexError
     | a0 # rest \<Rightarrow>
        (case class_getattr model a0 of
           None \<Rightarrow> Inl (InvalidFilterField a0)
         | Some fld \<Rightarrow>
            Inr \<lparr>qp_model_class = model, qp_queryset = queryset, is_method_lookup = (rest \<noteq> []),
                 qp_field = fld, qp_value = v,
                 qp_method = (case rest of [] \<Rightarrow> None | m # _ \<Rightarrow> Some m)\<rparr>))"

text \<open>
  \<open>construct_queryset\<close> compares the method name with the seven names it knows, in the
  order of the source (the \<open>icontains\<close> branch also prints its arguments, which is left out).
\<close>

definition queryset_filter :: "crit list \<Rightarrow> error + crit \<Rightarrow> error + crit list" where
  \<comment> \<open>\<open>queryset.filter(criterion)\<close>, where building the criterion may raise\<close>
  "queryset_filter queryset c = (case c of Inl e \<Rightarrow> Inl e | Inr c' \<Rightarrow> Inr (queryset @ [c']))"

definition construct_queryset :: "QueryParser \<Rightarrow> error + crit list" where
  "construct_queryset qp =
    (if \<not> is_method_lookup qp then
       queryset_filter (qp_queryset qp) (Inr (attr_eq (qp_field qp) (qp_value qp)))
     else if qp_method qp = Some ''in'' then
       queryset_filter (qp_queryset qp) (attr_in (qp_field qp) (qp_value qp))
     else if qp_method qp = Some ''contains'' then
       queryset_filter (qp_queryset qp) (attr_like CContains (qp_field qp) (qp_value qp))
     else if qp_method qp = Some ''icontains'' then
       queryset_filter (qp_queryset qp) (attr_like CILike (qp_field qp) (qp_value qp))
     else if qp_method qp = Some ''gt'' then
       queryset_filter (qp_queryset qp) (attr_cmp CGt (qp_field qp) (qp_value qp))
     else if qp_method qp = Some ''gte'' then
       queryset_filter (qp_queryset qp) (attr_cmp CGe (qp_field qp) (qp_value qp))
     else if qp_method qp = Some ''lt'' then
       queryset_filter (qp_queryset qp) (attr_cmp CLt (qp_field qp) (qp_value qp))
     else if qp_method qp = Some ''lte'' then
       queryset_filter (qp_queryset qp) (attr_cmp CLe (qp_field qp) (qp_value qp))
     else Inl (InvalidFilterMethod (qp_field qp)
                 (case qp_method qp of None \<Rightarrow> ''None'' | Some m \<Rightarrow> m)))"

section \<open>Listing (\<open>BaseDao.list\<close>)\<close>

record BaseDaoListResponse =
  items :: "row list"
  count :: nat

text \<open>The loop over \<open>filter_fields.items()\<close>.\<close>

fun filter_loop :: "model_class \<Rightarrow> crit list \<Rightarrow> kwargs \<Rightarrow> error + crit list" where
  "filter_loop cls queryset [] = Inr queryset"
| "filter_loop cls queryset ((field, v) # rest) =
     (if v = VNone then filter_loop cls queryset rest
      else (case QueryParser_init cls queryset field v of
              Inl e \<Rightarrow> Inl e
            | Inr qp \<Rightarrow>
               (case construct_queryset qp of
                  Inl e \<Rightarrow> Inl e
                | Inr queryset' \<Rightarrow> filter_loop cls queryset' rest)))"

definition list_queryset :: "BaseDao \<Rightarrow> val \<Rightarrow> bool \<Rightarrow> kwargs \<Rightarrow> error + crit list" where
  \<comment> \<open>the query \<open>list\<close> builds before it counts\<close>
  "list_queryset dao pk_ids include_deleted filter_fields =
    (let queryset0 = [];
         queryset1 = (if \<not> include_deleted then queryset0 @ [CEq ''is_deleted'' (VBool False)]
                      else queryset0)
     in case (if truthy pk_ids
              then (case get_id_field (dao_model_class dao) of
                      Inl e \<Rightarrow> Inl e
                    | Inr a \<Rightarrow> queryset_filter queryset1 (attr_in a pk_ids))
              else Inr queryset1) of
          Inl e \<Rightarrow> Inl e
        | Inr queryset2 \<Rightarrow> filter_loop (dao_model_class dao) queryset2 filter_fields)"

text \<open>
  \<open>ORDER BY\<close> on one column: a stable insertion sort, so rows with equal keys stay in
  insertion order.
\<close>

fun insert_row :: "(val \<Rightarrow> val \<Rightarrow> bool) \<Rightarrow> string \<Rightarrow> row \<Rightarrow> row list \<Rightarrow> row list" where
  "insert_row lt c r [] = [r]"
| "insert_row lt c r (x # xs) =
     (if lt (row_get r c) (row_get x c) then r # x # xs else x # insert_row lt c r xs)"

definition order_rows :: "string \<times> bool \<Rightarrow> row list \<Rightarrow> row list" where
  "order_rows ord rs =
    foldl (\<lambda>acc r. insert_row (\<lambda>x y. if snd ord then val_lt x y else val_lt y x) (fst ord) r acc)
      [] rs"

definition BaseDao_list ::
  "BaseDao \<Rightarrow> store \<Rightarrow> int \<Rightarrow> int \<Rightarrow> string \<Rightarrow> val \<Rightarrow> bool \<Rightarrow> kwargs \<Rightarrow> error + BaseDaoListResponse" where
  "BaseDao_list dao st page size' order_by pk_ids include_deleted filter_fields =
    (if page < 0 then Inl (ValueError ''page must be >= 0'')
     else if size' < 1 \<or> size' > 100 then Inl (ValueError ''size must be between 1 and 100'')
     else case list_queryset dao pk_ids include_deleted filter_fields of
        Inl e \<Rightarrow> Inl e
      | Inr queryset \<Rightarrow>
         if list_ex (rejects st) queryset
         then (case filter_fields of
                 [] \<Rightarrow> Inl UnboundLocalError
               | _ \<Rightarrow> Inl (DataError (fst (last filter_fields))))
         else (case map_of (dao_model_ordering_class dao) order_by of
                 None \<Rightarrow> Inl AttributeError
               | Some ord \<Rightarrow>
                  Inr \<lparr>items = take (nat size') (drop (nat (page * size'))
                                 (order_rows ord (select_rows st queryset))),
                       count = length (select_rows st queryset)\<rparr>))"

text \<open>
  \<open>dao.list(page=p, order_by=o, **kw)\<close> for keywords other than \<open>page\<close> and \<open>order_by\<close>:
  Python binds \<open>size\<close>, \<open>pk_ids\<close> and \<open>include_deleted\<close> to the parameters of that name and
  passes the rest as filter fields. A \<open>size\<close> that is not a number fails in the comparison
  \<open>size < 1\<close>.
\<close>

definition list_parameters :: "string list" where
  "list_parameters = [''page'', ''size'', ''order_by'', ''pk_ids'', ''include_deleted'']"

definition BaseDao_list_kwargs ::
  "BaseDao \<Rightarrow> store \<Rightarrow> int \<Rightarrow> string \<Rightarrow> kwargs \<Rightarrow> error + BaseDaoListResponse" where
  "BaseDao_list_kwargs dao st page order_by kw =
    (let pk_ids = (case map_of kw ''pk_ids'' of None \<Rightarrow> VList [] | Some v \<Rightarrow> v);
         include_deleted = (case map_of kw ''include_deleted'' of None \<Rightarrow> False | Some v \<Rightarrow> truthy v);
         filter_fields = filter (\<lambda>(k, v). k \<notin> set list_parameters) kw;
         run = (\<lambda>sz. BaseDao_list dao st page sz order_by pk_ids include_deleted filter_fields)
     in case map_of kw ''size'' of
          None \<Rightarrow> run 100
        | Some (VInt n) \<Rightarrow> run n
        | Some (VBool b) \<Rightarrow> run (if b then 1 else 0)
        | Some _ \<Rightarrow> (if page < 0 then Inl (ValueError ''page must be >= 0'') else Inl TypeError))"

section \<open>The paged lookup helper (\<open>utils/utils.py\<close>)\<close>

text \<open>
  The helper uses its \<open>dao\<close> argument through \<open>dao.list(page=..., order_by=..., **{column: value})\<close>
  only, so a DAO is modelled here by that method. A column named \<open>page\<close> or \<open>order_by\<close>
  repeats a keyword of the call, which Python refuses with \<open>TypeError\<close> before \<open>list\<close> runs.
\<close>

type_synonym dao_list = "int \<Rightarrow> string \<Rightarrow> kwargs \<Rightarrow> error + BaseDaoListResponse"

definition call_list :: "dao_list \<Rightarrow> int \<Rightarrow> string \<Rightarrow> string \<Rightarrow> val \<Rightarrow> error + BaseDaoListResponse" where
  "call_list dao page order_by column_name v =
    (if column_name = ''page'' \<or> column_name = ''order_by'' then Inl TypeError
     else dao page order_by [(column_name, v)])"

function fetch_loop ::
  "dao_list \<Rightarrow> string \<Rightarrow> val \<Rightarrow> string \<Rightarrow> int \<Rightarrow> int \<Rightarrow> row list \<Rightarrow> error + row list" where
  "fetch_loop dao column_name v order_by page_offset max_pages records_list =
    (if max_pages > 0 then
       (case call_list dao page_offset order_by column_name v of
          Inl e \<Rightarrow> Inl e
        | Inr users_response \<Rightarrow>
           if count users_response > 0 then Inr (records_list @ items users_response)
           else fetch_loop dao column_name v order_by (page_offset + 1) (max_pages - 1) records_list)
     else Inr records_list)"
  by pat_completeness auto
termination
  by (relation "measure (\<lambda>(dao, column_name, v, order_by, page_offset, max_pages, records_list). nat max_pages)") auto

definition fetch_row_based_on_column ::
  "dao_list \<Rightarrow> string \<Rightarrow> val \<Rightarrow> int \<Rightarrow> int \<Rightarrow> string \<Rightarrow> error + row list" where
  "fetch_row_based_on_column dao column_name column_type_filter_value page_offset max_pages order_by =
    (let records_list = [];
         max_pages = 10;
         page_offset = 0;
         order_by = ''CREATED_AT_ASC''
     in fetch_loop dao column_name column_type_filter_value order_by page_offset max_pages records_list)"

section \<open>Filter sets\<close>

text \<open>
  The Filter Expression of one filter field is what the parser adds to an empty query.
  The operator names the parser knows are \<open>lookup_methods\<close>. A filter field is in order
  when its value is \<open>None\<close> (it is skipped) or its expression can be built. A record
  matches the filter set of a \<open>list\<close> call when it is not soft-deleted (unless those are
  included), its identifier is among \<open>pk_ids\<close> (when any are given), and it satisfies the
  expression of every filter field whose value is not \<open>None\<close>.
\<close>

definition filter_expression :: "model_class \<Rightarrow> string \<Rightarrow> val \<Rightarrow> error + crit list" where
  "filter_expression cls field v =
    (case QueryParser_init cls [] field v of
       Inl e \<Rightarrow> Inl e
     | Inr qp \<Rightarrow> construct_queryset qp)"




section \<open>Example data\<close>

text \<open>
  The DAO of the organizations table, an empty store that refuses no criterion, and the
  keyword arguments \<open>create_organization\<close> of the service layer passes to \<open>create\<close>.
\<close>

definition orgs_dao :: BaseDao where
  "orgs_dao = BaseDao_init Organizations OrganizationsOrdering"

definition empty_store :: store where
  "empty_store = \<lparr>rows = [], rejects = (\<lambda>c. False)\<rparr>"

definition org_data :: kwargs where
  "org_data =
    [(''created_at'', VDateTime 1), (''created_by'', VStr ''a@x.com''),
     (''created_by_password'', VStr ''hash''), (''organizations_id'', VStr ''o1''),
     (''organization_name'', VStr ''Acme'')]"

definition acme_row :: row where
  "acme_row =
    [(''created_at'', VDateTime 1), (''created_by'', VStr ''a@x.com''),
     (''updated_at'', VDateTime 1), (''updated_by'', VStr ''a@x.com''),
     (''is_deleted'', VBool False), (''organizations_id'', VStr ''o1''),
     (''organization_name'', VStr ''Acme''), (''created_by_password'', VStr ''hash'')]"

definition beta_row :: row where
  "beta_row =
    [(''created_at'', VDateTime 2), (''created_by'', VStr ''b@x.com''),
     (''updated_at'', VDateTime 2), (''updated_by'', VStr ''b@x.com''),
     (''is_deleted'', VBool False), (''organizations_id'', VStr ''o2''),
     (''organization_name'', VStr ''Beta''), (''created_by_password'', VStr ''hash2'')]"

definition two_store :: store where
  "two_store = \<lparr>rows = [acme_row, beta_row], rejects = (\<lambda>c. False)\<rparr>"

text \<open>
  Keyword arguments that supply every required column, one of them as \<open>None\<close>; and the
  service's arguments with an \<open>updated_by\<close> and \<open>updated_at\<close> of the caller's own.
\<close>

definition org_data_null_name :: kwargs where
  "org_data_null_name =
    [(''created_at'', VDateTime 1), (''created_by'', VStr ''a@x.com''),
     (''updated_at'', VDateTime 1), (''updated_by'', VStr ''a@x.com''),
     (''created_by_password'', VStr ''hash''), (''organizations_id'', VStr ''o1''),
     (''organization_name'', VNone)]"

definition org_data_other_updater :: kwargs where
  "org_data_other_updater = (''updated_by'', VStr ''someone@else'') # (''updated_at'', VDateTime 99) # org_data"




section \<open>Facts about the model\<close>

lemmas example_defs = orgs_dao_def empty_store_def org_data_def acme_row_def beta_row_def
  two_store_def

lemmas schema_defs = BaseDao_init_def Organizations_def Users_def OrganizationsOrdering_def
  UsersOrdering_def table_columns_def generic_base_columns_def column_names_def
  model_methods_def class_getattr_def

lemma get_id_field_models:
  "get_id_field Organizations = Inr (ColumnAttr ''organizations_id'')"
  "get_id_field Users = Inr (ColumnAttr ''users_id'')"
  by code_simp+

lemmas get_defs = BaseDao_get_def internal_get_def id_crit_def
  get_id_field_models[unfolded Organizations_def Users_def] attr_eq_def select_rows_def
  row_get_def

lemmas update_defs = BaseDao_update_def BaseDao_soft_delete_def commit_instance_def setattr_def
  verify_null_kwargs_def kwargs_get_def violates_def

lemmas list_defs = BaseDao_list_def list_queryset_def QueryParser_init_def construct_queryset_def
  queryset_filter_def py_split_def attr_eq_def attr_in_def attr_like_def attr_cmp_def
  select_rows_def order_rows_def row_get_def BaseDao_list_kwargs_def list_parameters_def

lemmas create_defs = BaseDao_create_def create_kwargs_def verify_null_kwargs_def
  verify_all_non_nullable_fields_defined_def kwargs_get_def instance_row_def violates_def
  row_get_def

lemma find_Some_set: "find P xs = Some x \<Longrightarrow> x \<in> set xs \<and> P x"
  by (induction xs) (auto split: if_splits)

lemma base_columns_non_nullable:
  "''created_at'' \<in> set (non_nullable_columns (BaseDao_init cls oc))"
  "''created_by'' \<in> set (non_nullable_columns (BaseDao_init cls oc))"
  "''updated_at'' \<in> set (non_nullable_columns (BaseDao_init cls oc))"
  "''updated_by'' \<in> set (non_nullable_columns (BaseDao_init cls oc))"
  by (simp_all add: BaseDao_init_def table_columns_def generic_base_columns_def)

subsection \<open>Validation in \<open>create\<close>\<close>

lemma verify_null_kwargs_cases:
  "verify_null_kwargs dao kw = Inr () \<or> (\<exists>f. verify_null_kwargs dao kw = Inl (NotNullable f))"
  by (simp add: verify_null_kwargs_def split: option.split)

lemma verify_null_kwargs_ok_iff:
  "verify_null_kwargs dao kw = Inr () \<longleftrightarrow>
     (\<forall>f \<in> set (non_nullable_columns dao). map_of kw f \<noteq> Some VNone)"
proof -
  have "map_of kw f = Some VNone \<Longrightarrow> f \<in> fst ` set kw" for f
    by (force dest: map_of_SomeD)
  then show ?thesis
    by (auto simp: verify_null_kwargs_def find_None_iff split: option.split dest: find_Some_set)
qed

lemma verify_all_cases:
  "verify_all_non_nullable_fields_defined dao kw = Inr ()
   \<or> (\<exists>f. verify_all_non_nullable_fields_defined dao kw = Inl (NotNullable f))"
  by (simp add: verify_all_non_nullable_fields_defined_def split: option.split)

lemma verify_all_ok_iff:
  "verify_all_non_nullable_fields_defined dao kw = Inr () \<longleftrightarrow>
     (\<forall>f \<in> set (non_nullable_columns dao). map_of kw f \<noteq> None)"
  by (auto simp: verify_all_non_nullable_fields_defined_def find_None_iff split: option.split
      dest: find_Some_set)

lemma kwargs_get_create_kwargs:
  "kwargs_get (create_kwargs kw) f =
     (if f = ''updated_at'' then kwargs_get kw ''created_at''
      else if f = ''updated_by'' then kwargs_get kw ''created_by''
      else kwargs_get kw f)"
  by (simp add: create_kwargs_def kwargs_get_def update_conv')

lemma validation_ok_iff:
  "(verify_null_kwargs dao kw = Inr () \<and> verify_all_non_nullable_fields_defined dao kw = Inr ())
   \<longleftrightarrow> (\<forall>f \<in> set (non_nullable_columns dao). kwargs_get kw f \<noteq> VNone)"
  unfolding verify_null_kwargs_ok_iff verify_all_ok_iff kwargs_get_def
  by (auto split: option.split)

lemma create_not_nullable_iff_validation:
  "(\<exists>f. fst (BaseDao_create dao st kw) = Inl (NotNullable f)) \<longleftrightarrow>
   \<not> (verify_null_kwargs dao (create_kwargs kw) = Inr ()
      \<and> verify_all_non_nullable_fields_defined dao (create_kwargs kw) = Inr ())"
  using verify_null_kwargs_cases[of dao "create_kwargs kw"] verify_all_cases[of dao "create_kwargs kw"]
  by (auto simp: BaseDao_create_def Let_def split: sum.splits)

lemma create_not_nullable_iff:
  "(\<exists>f. fst (BaseDao_create (BaseDao_init cls oc) st kw) = Inl (NotNullable f)) \<longleftrightarrow>
   (\<exists>f \<in> set (non_nullable_columns (BaseDao_init cls oc)) - {''updated_by'', ''updated_at''}.
       kwargs_get kw f = VNone)"
proof -
  let ?nn = "set (non_nullable_columns (BaseDao_init cls oc))"
  have "(\<exists>f \<in> ?nn. kwargs_get (create_kwargs kw) f = VNone) \<longleftrightarrow>
        (\<exists>f \<in> ?nn - {''updated_by'', ''updated_at''}. kwargs_get kw f = VNone)"
    using base_columns_non_nullable[of cls oc]
    by (auto simp: kwargs_get_create_kwargs split: if_splits)
  then show ?thesis
    unfolding create_not_nullable_iff_validation validation_ok_iff by blast
qed

lemma create_success_row:
  assumes "BaseDao_create (BaseDao_init cls oc) st kw = (Inr (), st')"
  shows "rows st' = rows st @ [instance_row cls (create_kwargs kw)]
       \<and> (\<forall>f \<in> set (non_nullable_columns (BaseDao_init cls oc)).
             kwargs_get (create_kwargs kw) f \<noteq> VNone)"
proof -
  have ok: "verify_null_kwargs (BaseDao_init cls oc) (create_kwargs kw) = Inr ()
      \<and> verify_all_non_nullable_fields_defined (BaseDao_init cls oc) (create_kwargs kw) = Inr ()"
    using assms
    by (auto simp: BaseDao_create_def Let_def split: sum.splits if_splits)
  have "rows st' = rows st @ [instance_row cls (create_kwargs kw)]"
    using assms
    by (auto simp: BaseDao_create_def Let_def BaseDao_init_def split: sum.splits if_splits)
  with ok show ?thesis unfolding validation_ok_iff by blast
qed

lemma instance_row_base:
  "row_get (instance_row cls kw) ''updated_by'' = kwargs_get kw ''updated_by''"
  "row_get (instance_row cls kw) ''created_by'' = kwargs_get kw ''created_by''"
  "row_get (instance_row cls kw) ''updated_at'' = kwargs_get kw ''updated_at''"
  "row_get (instance_row cls kw) ''created_at'' = kwargs_get kw ''created_at''"
  by (simp_all add: instance_row_def row_get_def table_columns_def generic_base_columns_def
      split: val.split)

subsection \<open>Required fields on create\<close>

text \<open>
  C1 (amended). \<open>create\<close> first overwrites \<open>updated_by\<close> and \<open>updated_at\<close> with the supplied
  \<open>created_by\<close> and \<open>created_at\<close>, then rejects a non-nullable field supplied as null, then a
  required field that is missing. So \<open>create\<close> fails with NotNullable exactly when some
  required-on-create column other than \<open>updated_by\<close> and \<open>updated_at\<close> is absent from the
  supplied mapping or supplied as \<open>None\<close>. Whether it does is independent of the order of
  the supplied fields. The required-on-create columns are the non-nullable columns without
  a default, so \<open>is_deleted\<close> is not among them.
\<close>

theorem create_fails_not_nullable_iff_required_missing:
  "((\<exists>f. fst (BaseDao_create (BaseDao_init cls oc) st kw) = Inl (NotNullable f)) \<longleftrightarrow>
      (\<exists>f \<in> set (non_nullable_columns (BaseDao_init cls oc)) - {''updated_by'', ''updated_at''}.
          kwargs_get kw f = VNone))
   \<and> (distinct (map fst kw) \<and> distinct (map fst kw') \<and> set kw = set kw' \<longrightarrow>
        ((\<exists>f. fst (BaseDao_create (BaseDao_init cls oc) st kw) = Inl (NotNullable f)) \<longleftrightarrow>
         (\<exists>f. fst (BaseDao_create (BaseDao_init cls oc) st kw') = Inl (NotNullable f))))
   \<and> set (non_nullable_columns (BaseDao_init cls oc)) =
        col_name ` {c \<in> set (table_columns cls). \<not> nullable c \<and> col_default c = None}
   \<and> ''is_deleted'' \<notin> set (non_nullable_columns (BaseDao_init Organizations oc))
   \<and> ''is_deleted'' \<notin> set (non_nullable_columns (BaseDao_init Users oc))"
proof (intro conjI impI)
  show "(\<exists>f. fst (BaseDao_create (BaseDao_init cls oc) st kw) = Inl (NotNullable f)) \<longleftrightarrow>
      (\<exists>f \<in> set (non_nullable_columns (BaseDao_init cls oc)) - {''updated_by'', ''updated_at''}.
          kwargs_get kw f = VNone)"
    by (rule create_not_nullable_iff)
next
  assume h: "distinct (map fst kw) \<and> distinct (map fst kw') \<and> set kw = set kw'"
  then have "map_of kw = map_of kw'"
    by (simp add: map_of_inject_set)
  then have "kwargs_get kw = kwargs_get kw'"
    by (simp add: kwargs_get_def fun_eq_iff)
  then show "(\<exists>f. fst (BaseDao_create (BaseDao_init cls oc) st kw) = Inl (NotNullable f)) \<longleftrightarrow>
         (\<exists>f. fst (BaseDao_create (BaseDao_init cls oc) st kw') = Inl (NotNullable f))"
    unfolding create_not_nullable_iff by simp
next
  show "set (non_nullable_columns (BaseDao_init cls oc)) =
        col_name ` {c \<in> set (table_columns cls). \<not> nullable c \<and> col_default c = None}"
    by (auto simp: BaseDao_init_def)
next
  show "''is_deleted'' \<notin> set (non_nullable_columns (BaseDao_init Organizations oc))"
    by (simp add: schema_defs)
next
  show "''is_deleted'' \<notin> set (non_nullable_columns (BaseDao_init Users oc))"
    by (simp add: schema_defs)
qed

theorem create_fails_not_nullable_witness:
  "(\<exists>f. fst (BaseDao_create orgs_dao empty_store (tl org_data)) = Inl (NotNullable f))
   \<and> (\<exists>f. fst (BaseDao_create orgs_dao empty_store (rev (tl org_data))) = Inl (NotNullable f))"
proof -
  note at_input = create_fails_not_nullable_iff_required_missing
    [of Organizations OrganizationsOrdering empty_store "tl org_data" "rev (tl org_data)"]
  have missing: "\<exists>f \<in> set (non_nullable_columns (BaseDao_init Organizations OrganizationsOrdering))
      - {''updated_by'', ''updated_at''}. kwargs_get (tl org_data) f = VNone"
    by (rule bexI[of _ "''created_at''"]) (simp_all add: schema_defs example_defs kwargs_get_def)
  have first: "\<exists>f. fst (BaseDao_create (BaseDao_init Organizations OrganizationsOrdering) empty_store (tl org_data)) = Inl (NotNullable f)"
    using at_input missing by blast
  have perm: "distinct (map fst (tl org_data)) \<and> distinct (map fst (rev (tl org_data)))
      \<and> set (tl org_data) = set (rev (tl org_data))"
  proof -
    have "distinct (map fst (tl org_data))"
      by (simp add: example_defs)
    then show ?thesis
      by (simp add: rev_map[symmetric])
  qed
  have second: "\<exists>f. fst (BaseDao_create (BaseDao_init Organizations OrganizationsOrdering) empty_store (rev (tl org_data))) = Inl (NotNullable f)"
    using at_input perm first by blast
  show ?thesis using first second by (simp add: orgs_dao_def)
qed

text \<open>
  C1 as stated fails in both directions: the service's own call omits \<open>updated_by\<close>, which is
  required-on-create, and succeeds; and a call that supplies every required column fails
  with NotNullable when one of them is \<open>None\<close>.
\<close>

theorem create_required_counterexample:
  "fst (BaseDao_create orgs_dao empty_store org_data) = Inr ()
   \<and> ''updated_by'' \<in> set (non_nullable_columns orgs_dao)
   \<and> map_of org_data ''updated_by'' = None
   \<and> fst (BaseDao_create orgs_dao empty_store org_data_null_name) = Inl (NotNullable ''organization_name'')
   \<and> list_all (\<lambda>f. map_of org_data_null_name f \<noteq> None) (non_nullable_columns orgs_dao)"
  by (simp add: example_defs schema_defs create_defs org_data_null_name_def)

subsection \<open>The audit columns of a created record\<close>

text \<open>
  C9. After a successful \<open>create\<close> the store holds one more row, whose \<open>updated_by\<close> and
  \<open>updated_at\<close> equal its \<open>created_by\<close> and \<open>created_at\<close>, which are the supplied ones:
  whatever the caller supplied as \<open>updated_by\<close> or \<open>updated_at\<close> is overwritten.
\<close>

theorem create_sets_updated_from_created:
  assumes "BaseDao_create (BaseDao_init cls oc) st kw = (Inr (), st')"
  shows "\<exists>inst. rows st' = rows st @ [inst]
           \<and> row_get inst ''updated_by'' = row_get inst ''created_by''
           \<and> row_get inst ''updated_at'' = row_get inst ''created_at''
           \<and> row_get inst ''created_by'' = kwargs_get kw ''created_by''
           \<and> row_get inst ''created_at'' = kwargs_get kw ''created_at''"
proof -
  from create_success_row[OF assms]
  have r: "rows st' = rows st @ [instance_row cls (create_kwargs kw)]" by blast
  show ?thesis
    by (rule exI[of _ "instance_row cls (create_kwargs kw)"])
       (simp add: r instance_row_base kwargs_get_create_kwargs)
qed

theorem create_sets_updated_from_created_witness:
  "BaseDao_create orgs_dao empty_store org_data_other_updater = (Inr (), empty_store\<lparr>rows := [acme_row]\<rparr>)
   \<and> row_get acme_row ''updated_by'' = VStr ''a@x.com''
   \<and> row_get acme_row ''updated_at'' = VDateTime 1"
proof -
  have run: "BaseDao_create (BaseDao_init Organizations OrganizationsOrdering) empty_store org_data_other_updater
      = (Inr (), empty_store\<lparr>rows := [acme_row]\<rparr>)"
    by (simp add: example_defs schema_defs create_defs org_data_other_updater_def update_conv')
  from create_sets_updated_from_created[OF run]
  obtain inst where "rows (empty_store\<lparr>rows := [acme_row]\<rparr>) = rows empty_store @ [inst]"
    and "row_get inst ''updated_by'' = kwargs_get org_data_other_updater ''created_by''"
    and "row_get inst ''updated_at'' = kwargs_get org_data_other_updater ''created_at''"
    by auto
  then have "row_get acme_row ''updated_by'' = kwargs_get org_data_other_updater ''created_by''"
    and "row_get acme_row ''updated_at'' = kwargs_get org_data_other_updater ''created_at''"
    by (simp_all add: empty_store_def)
  then show ?thesis using run
    by (simp add: orgs_dao_def kwargs_get_def org_data_other_updater_def org_data_def)
qed

subsection \<open>Mutating a record that does not exist\<close>

text \<open>
  C6. When no record has the identifier (the lookup by identifier finds none), \<open>update\<close>
  with a non-empty field mapping and \<open>soft_delete\<close> with its three arguments set both fail
  with NotFound and leave the store as it was; \<open>update\<close> with an empty mapping returns
  without error and without a change, the missing record notwithstanding.
\<close>

theorem mutate_unknown_id_not_found:
  assumes "BaseDao_get dao st ident = Inr None"
  shows "(kw \<noteq> [] \<longrightarrow> BaseDao_update dao st now ident kw = (Inl (NotFound ident), st))
       \<and> (truthy ident \<and> truthy updated_by \<and> truthy updated_at \<longrightarrow>
            BaseDao_soft_delete dao st ident updated_by updated_at = (Inl (NotFound ident), st))
       \<and> BaseDao_update dao st now ident [] = (Inr (), st)"
  using assms by (simp add: BaseDao_update_def BaseDao_soft_delete_def BaseDao_get_def)

theorem mutate_unknown_id_witness:
  "BaseDao_get orgs_dao two_store (VStr ''o9'') = Inr None
   \<and> BaseDao_update orgs_dao two_store 5 (VStr ''o9'') [(''organization_name'', VStr ''New'')]
        = (Inl (NotFound (VStr ''o9'')), two_store)
   \<and> BaseDao_soft_delete orgs_dao two_store (VStr ''o9'') (VStr ''a@x.com'') (VDateTime 5)
        = (Inl (NotFound (VStr ''o9'')), two_store)
   \<and> BaseDao_update orgs_dao two_store 5 (VStr ''o9'') [] = (Inr (), two_store)"
proof -
  have absent: "BaseDao_get orgs_dao two_store (VStr ''o9'') = Inr None"
    by (simp add: example_defs schema_defs get_defs)
  show ?thesis
    using absent
      mutate_unknown_id_not_found[OF absent, of "[(''organization_name'', VStr ''New'')]" 5
        "VStr ''a@x.com''" "VDateTime 5"]
    by simp
qed

subsection \<open>Null for a non-nullable column that has a default\<close>

text \<open>
  C2 does not hold of the code for \<open>is_deleted\<close>: the null check consults the columns that are
  non-nullable and have no default, so an explicit \<open>None\<close> for \<open>is_deleted\<close> passes it. On
  \<open>create\<close> the column then takes its default and the call succeeds; on \<open>update\<close> the null
  reaches the table and its NOT NULL constraint refuses the commit.
\<close>

theorem null_is_deleted_passes_null_check:
  "verify_null_kwargs orgs_dao [(''is_deleted'', VNone)] = Inr ()
   \<and> fst (BaseDao_create orgs_dao empty_store (org_data @ [(''is_deleted'', VNone)])) = Inr ()
   \<and> fst (BaseDao_update orgs_dao two_store 5 (VStr ''o1'') [(''is_deleted'', VNone)])
        = Inl IntegrityError"
  by (simp add: example_defs schema_defs create_defs get_defs update_defs)

subsection \<open>The paged lookup helper\<close>

text \<open>
  C10. The helper's result does not depend on its \<open>page_offset\<close>, \<open>max_pages\<close> and
  \<open>order_by\<close> arguments: two calls that differ in those three only return the same.
\<close>

theorem fetch_ignores_paging_arguments:
  "fetch_row_based_on_column dao column_name v page_offset max_pages order_by
   = fetch_row_based_on_column dao column_name v page_offset' max_pages' order_by'"
  by (simp add: fetch_row_based_on_column_def)

lemma fetch_beta: "fetch_row_based_on_column (BaseDao_list_kwargs orgs_dao two_store) ''organization_name'' (VStr ''Beta'') 0 10 ''CREATED_AT_ASC'' = Inr [beta_row]"
  by (simp add: fetch_row_based_on_column_def call_list_def example_defs schema_defs list_defs)

theorem fetch_ignores_paging_arguments_witness:
  "fetch_row_based_on_column (BaseDao_list_kwargs orgs_dao two_store) ''organization_name''
     (VStr ''Beta'') 7 1 ''CREATED_AT_DESC'' = Inr [beta_row]"
  using fetch_ignores_paging_arguments[of "BaseDao_list_kwargs orgs_dao two_store" "''organization_name''"
     "VStr ''Beta''" 7 1 "''CREATED_AT_DESC''" 0 10 "''CREATED_AT_ASC''"] fetch_beta
  by (rule trans)





subsection \<open>Filter fields in \<open>list\<close>\<close>

lemma parse_with_queryset:
  "(case QueryParser_init cls qs0 field v of Inl e \<Rightarrow> Inl e | Inr qp \<Rightarrow> construct_queryset qp)
   = (case filter_expression cls field v of Inl e \<Rightarrow> Inl e | Inr q \<Rightarrow> Inr (qs0 @ q))"
  by (simp add: filter_expression_def QueryParser_init_def construct_queryset_def queryset_filter_def
      split: list.split option.split sum.split)

lemma filter_loop_Cons:
  "filter_loop cls qs (fv # rest) =
     (if snd fv = VNone then filter_loop cls qs rest
      else (case filter_expression cls (fst fv) (snd fv) of
              Inl e \<Rightarrow> Inl e
            | Inr q \<Rightarrow> filter_loop cls (qs @ q) rest))"
proof -
  obtain f v where fv: "fv = (f, v)" by (cases fv)
  have "filter_loop cls qs ((f, v) # rest) =
     (if v = VNone then filter_loop cls qs rest
      else (case (case QueryParser_init cls qs f v of Inl e \<Rightarrow> Inl e | Inr qp \<Rightarrow> construct_queryset qp) of
              Inl e \<Rightarrow> Inl e
            | Inr qs' \<Rightarrow> filter_loop cls qs' rest))"
    by (simp split: sum.split)
  then show ?thesis
    unfolding fv parse_with_queryset by (simp split: sum.split)
qed

lemma filter_loop_skip_none:
  "filter_loop cls qs (xs @ (f, VNone) # ys) = filter_loop cls qs (xs @ ys)"
proof (induction xs arbitrary: qs)
  case Nil
  show ?case by simp
next
  case (Cons x xs)
  show ?case
    by (simp add: filter_loop_Cons Cons.IH split: sum.split)
qed

lemma list_queryset_split:
  "list_queryset dao pk incl F =
     (case list_queryset dao pk incl [] of
        Inl e \<Rightarrow> Inl e
      | Inr qs \<Rightarrow> filter_loop (dao_model_class dao) qs F)"
  by (simp add: list_queryset_def Let_def split: sum.split)

lemma list_queryset_skip_none:
  "list_queryset dao pk incl (xs @ (f, VNone) # ys) = list_queryset dao pk incl (xs @ ys)"
  by (subst (1 2) list_queryset_split) (simp add: filter_loop_skip_none split: sum.split)

text \<open>
  C8. A filter field whose value is \<open>None\<close> is skipped: wherever it stands among the filter
  fields, \<open>list\<close> returns a response with it exactly when it returns that response without
  it (and so fails with it exactly when it fails without it).
\<close>

theorem list_null_filter_is_omitted:
  "(BaseDao_list dao st page size' order_by pk_ids include_deleted (xs @ (f, VNone) # ys) = Inr resp)
   = (BaseDao_list dao st page size' order_by pk_ids include_deleted (xs @ ys) = Inr resp)"
  by (simp add: BaseDao_list_def list_queryset_skip_none split: sum.split list.split option.split)

theorem list_null_filter_is_omitted_witness:
  "BaseDao_list orgs_dao two_store 0 100 ''CREATED_AT_DESC'' (VList []) False
     [(''organization_name'', VStr ''Acme''), (''created_by'', VNone)]
   = Inr \<lparr>items = [acme_row], count = 1\<rparr>"
proof -
  have "BaseDao_list orgs_dao two_store 0 100 ''CREATED_AT_DESC'' (VList []) False
     ([(''organization_name'', VStr ''Acme'')] @ []) = Inr \<lparr>items = [acme_row], count = 1\<rparr>"
    by (simp add: example_defs schema_defs list_defs)
  then have "BaseDao_list orgs_dao two_store 0 100 ''CREATED_AT_DESC'' (VList []) False
     ([(''organization_name'', VStr ''Acme'')] @ (''created_by'', VNone) # []) = Inr \<lparr>items = [acme_row], count = 1\<rparr>"
    by (rule iffD2[OF list_null_filter_is_omitted])
  then show ?thesis by simp
qed


















text \<open>
  The parser resolves the first segment with \<open>getattr\<close>, which also finds the methods of
  the model: \<open>to_dict\<close> is not a column, and a filter on it selects nothing without an error.
\<close>

lemma list_filter_on_method_name:
  "BaseDao_list orgs_dao two_store 0 100 ''CREATED_AT_DESC'' (VList []) False
     [(''to_dict'', VStr ''x'')] = Inr \<lparr>items = [], count = 0\<rparr>"
  by (simp add: example_defs schema_defs list_defs)

subsection \<open>Soft delete\<close>





















end
